theory Spec2Isabelle
  imports Main
begin

section \<open>JavaScript strings\<close>

text \<open>
  Strings are character lists. A string is falsy in JavaScript exactly when it is empty,
  so \<open>if (s)\<close> is rendered as \<open>s \<noteq> []\<close>.
\<close>

fun startsWith :: "string \<Rightarrow> string \<Rightarrow> bool" where
  "startsWith s [] = True"
| "startsWith [] (p # ps) = False"
| "startsWith (c # s) (p # ps) = (c = p \<and> startsWith s ps)"

text \<open>\<open>String.prototype.includes\<close>: the argument occurs somewhere as a contiguous run.\<close>

fun includes_str :: "string \<Rightarrow> string \<Rightarrow> bool" where
  "includes_str [] t = (t = [])"
| "includes_str (c # s) t = (startsWith (c # s) t \<or> includes_str s t)"

section \<open>AssetGenerationToolView: parseToolResult\<close>

text \<open>
  The tool content has type \<open>any\<close>. The function only distinguishes falsy values, strings,
  objects (rendered by \<open>JSON.stringify\<close>; the rendering is carried by the constructor) and
  every other truthy value (numbers, \<open>true\<close>, functions), for which \<open>contentStr\<close> stays empty.
\<close>

datatype js_value =
    JsFalsy
  | JsString string
  | JsObject string
  | JsOther

fun truthy :: "js_value \<Rightarrow> bool" where
  "truthy JsFalsy = False"
| "truthy (JsString s) = (s \<noteq> [])"
| "truthy (JsObject j) = True"
| "truthy JsOther = True"

fun contentStr :: "js_value \<Rightarrow> string" where
  "contentStr (JsString s) = s"
| "contentStr (JsObject j) = j"
| "contentStr JsFalsy = []"
| "contentStr JsOther = []"

record AssetResult =
  isEachlabsWorkflow :: bool
  isGoogleImagen :: bool
  isAsyncProcessing :: bool
  hasImages :: bool
  images :: "string list"
  workflowDetails :: "string option"
  errorMessage :: "string option"

text \<open>
  The regular expression \<^verbatim>\<open>\((https?:\/\/[^\)]+)\)\<close> anchored at the head of the input:
  an opening parenthesis, the scheme, at least one character other than a closing
  parenthesis, and the closing parenthesis. The result is the captured group and the input
  left after the match.
\<close>

definition close_url :: "string \<Rightarrow> string \<Rightarrow> (string \<times> string) option" where
  "close_url scheme rest =
     (let body = takeWhile (\<lambda>c. c \<noteq> CHR '')'') rest;
          after = dropWhile (\<lambda>c. c \<noteq> CHR '')'') rest
      in if body \<noteq> [] \<and> after \<noteq> [] then Some (scheme @ body, tl after) else None)"

definition match_paren_url :: "string \<Rightarrow> (string \<times> string) option" where
  "match_paren_url s =
     (if startsWith s ''(https://'' then close_url ''https://'' (drop 9 s)
      else if startsWith s ''(http://'' then close_url ''http://'' (drop 8 s)
      else None)"

text \<open>
  \<^verbatim>\<open>\[View Image\]\((https?:\/\/[^\)]+)\)\<close> anchored at the head of the input: the matched
  text and the input left after it.
\<close>

definition match_view_image :: "string \<Rightarrow> (string \<times> string) option" where
  "match_view_image s =
     (if startsWith s ''[View Image]'' then
        (case match_paren_url (drop 12 s) of
           Some (url, rest) \<Rightarrow> Some (''[View Image]('' @ url @ '')'', rest)
         | None \<Rightarrow> None)
      else None)"

lemma close_url_shorter: "close_url scheme s = Some (u, r) \<Longrightarrow> length r < length s"
proof -
  assume a: "close_url scheme s = Some (u, r)"
  let ?d = "dropWhile (\<lambda>c. c \<noteq> CHR '')'') s"
  from a have d: "?d \<noteq> []" and r: "r = tl ?d"
    by (auto simp: close_url_def Let_def split: if_splits)
  have "length ?d \<le> length s" by (rule length_dropWhile_le)
  moreover from d have "length (tl ?d) < length ?d" by (cases ?d) auto
  ultimately show ?thesis using r by simp
qed

lemma match_paren_url_shorter: "match_paren_url s = Some (u, r) \<Longrightarrow> length r < length s"
  by (auto simp: match_paren_url_def split: if_splits dest!: close_url_shorter)

lemma match_view_image_shorter: "match_view_image s = Some (m, r) \<Longrightarrow> length r < length s"
  by (auto simp: match_view_image_def split: if_splits option.splits
           dest!: match_paren_url_shorter)

text \<open>
  \<open>contentStr.match(/.../g)\<close>: every match, left to right, the search resuming after
  each match. JavaScript returns \<open>null\<close> where there is no match; the empty list stands
  for it.
\<close>

function matchAll_view_image :: "string \<Rightarrow> string list" where
  "matchAll_view_image [] = []"
| "matchAll_view_image (c # s) =
     (case match_view_image (c # s) of
        Some (m, rest) \<Rightarrow> m # matchAll_view_image rest
      | None \<Rightarrow> matchAll_view_image s)"
  by pat_completeness auto
termination
  by (relation "measure length") (auto dest: match_view_image_shorter)

text \<open>\<open>match.match(/\((https?:\/\/[^\)]+)\)/)\<close>: the leftmost match, its first group.\<close>

fun first_paren_url :: "string \<Rightarrow> string option" where
  "first_paren_url [] = None"
| "first_paren_url (c # s) =
     (case match_paren_url (c # s) of
        Some (url, rest) \<Rightarrow> Some url
      | None \<Rightarrow> first_paren_url s)"

definition extract_images :: "string list \<Rightarrow> string list" where
  "extract_images imageMatches =
     filter (\<lambda>u. u \<noteq> [])
       (map (\<lambda>m. case first_paren_url m of Some u \<Rightarrow> u | None \<Rightarrow> []) imageMatches)"

definition parseToolResult :: "js_value \<Rightarrow> AssetResult" where
  "parseToolResult toolContent =
     (if \<not> truthy toolContent then
        \<lparr>isEachlabsWorkflow = False, isGoogleImagen = False, isAsyncProcessing = False,
         hasImages = False, images = [], workflowDetails = None, errorMessage = None\<rparr>
      else
        let str = contentStr toolContent in
        if includes_str str ''Error:'' \<or> includes_str str ''error'' then
          \<lparr>isEachlabsWorkflow = False, isGoogleImagen = False, isAsyncProcessing = False,
           hasImages = False, images = [], workflowDetails = None, errorMessage = Some str\<rparr>
        else
          let imageMatches = matchAll_view_image str in
          if imageMatches \<noteq> [] \<or> includes_str str ''Image Generated Successfully''
             \<or> includes_str str ''Images Generated Successfully'' then
            (let imgs = extract_images imageMatches in
             \<lparr>isEachlabsWorkflow = False, isGoogleImagen = True, isAsyncProcessing = False,
              hasImages = (length imgs > 0), images = imgs,
              workflowDetails = None, errorMessage = None\<rparr>)
          else if includes_str str ''Asset Generation Started''
                  \<or> includes_str str ''Workflow executed successfully'' then
            \<lparr>isEachlabsWorkflow = True, isGoogleImagen = False, isAsyncProcessing = True,
             hasImages = False, images = [], workflowDetails = Some str, errorMessage = None\<rparr>
          else
            \<lparr>isEachlabsWorkflow = False, isGoogleImagen = False, isAsyncProcessing = False,
             hasImages = False, images = [], workflowDetails = None, errorMessage = None\<rparr>)"

section \<open>useAgentCall: the handoff hook\<close>

text \<open>
  A rejected promise carries a reason; the handlers read only its \<open>message\<close> property,
  which may be missing.
\<close>

datatype rejection = Rejection (err_message: "string option")

record UnifiedMessage =
  message_id :: string
  thread_id :: string
  msg_type :: string
  is_llm_message :: bool
  content :: string
  metadata :: string
  created_at :: string
  updated_at :: string

text \<open>
  \<open>currentModelSettings\<close>, the options of \<open>handleSubmitMessage\<close> and the options handed to
  the start mutation: every optional property is an \<open>option\<close>.
\<close>

record model_settings =
  model_name :: "string option"
  enable_thinking :: "bool option"
  reasoning_effort :: "string option"

record submit_options = model_settings +
  enable_context_manager :: "bool option"

record agent_options = submit_options +
  agent_id :: string

text \<open>
  The calls made to the three mutations, each with the way its promise settled:
  \<open>stopAgentMutation.mutateAsync(runId)\<close>, \<open>addUserMessageMutation.mutateAsync({threadId,
  message})\<close> and \<open>startAgentMutation.mutateAsync({threadId, options})\<close>, which resolves to
  the \<open>agent_run_id\<close>.
\<close>

datatype event =
    StopRun string "rejection option"
  | AppendMessage string string "rejection option"
  | StartRun string agent_options "rejection + string"

datatype toast = ToastSuccess string | ToastError string

text \<open>
  What the surroundings answer: the settlement of each mutation as a function of its
  arguments (\<open>None\<close>: resolved), the decimal text of \<open>Date.now()\<close> and the two
  \<open>new Date().toISOString()\<close> readings.
\<close>

record env =
  stopAgentMutation :: "string \<Rightarrow> rejection option"
  addUserMessageMutation :: "string \<Rightarrow> string \<Rightarrow> rejection option"
  startAgentMutation :: "string \<Rightarrow> agent_options \<Rightarrow> rejection + string"
  date_now :: string
  iso_created :: string
  iso_updated :: string

text \<open>
  The parameters of the hook and its own state. The parent component owns the run id, the
  selected agent and the messages and hands the hook the value or the setter
  (\<open>currentAgentRunId\<close>/\<open>setAgentRunId\<close>, \<open>setSelectedAgentId\<close>, \<open>setMessages\<close>); the
  record holds the value each setter writes.
\<close>

record hook_state =
  threadId :: string
  currentAgentRunId :: "string option"
  currentAgentStatus :: string
  selectedAgentId :: string
  messages :: "UnifiedMessage list"
  currentModelSettings :: "model_settings option"
  isLoading :: bool
  error :: "string option"

record handoff_result =
  state :: hook_state
  calls :: "event list"
  toasts :: "toast list"

text \<open>
  The \<open>try\<close> block is three awaited steps. A step that throws yields \<open>Inl\<close> with the
  reason and everything done so far, which the \<open>catch\<close> block receives. What the function
  writes to the console is left out: every path logs, and nothing reads the log.
\<close>

text \<open>\<open>currentAgentRunId && currentAgentStatus === 'running'\<close>: the run to stop, if any.\<close>

definition run_to_stop :: "hook_state \<Rightarrow> string option" where
  "run_to_stop s =
     (case currentAgentRunId s of
        None \<Rightarrow> None
      | Some rid \<Rightarrow>
          if rid \<noteq> [] \<and> currentAgentStatus s = ''running'' then Some rid else None)"

definition stop_current ::
  "env \<Rightarrow> handoff_result \<Rightarrow> (rejection \<times> handoff_result) + handoff_result" where
  "stop_current ev r =
     (case run_to_stop (state r) of
        None \<Rightarrow> Inr r
      | Some rid \<Rightarrow>
          (case stopAgentMutation ev rid of
             None \<Rightarrow> Inr (r\<lparr>calls := calls r @ [StopRun rid None]\<rparr>)
           | Some e \<Rightarrow> Inl (e, r\<lparr>calls := calls r @ [StopRun rid (Some e)]\<rparr>)))"

text \<open>\<open>if (message)\<close>: the handoff message when it is present and not empty.\<close>

definition message_given :: "string option \<Rightarrow> string option" where
  "message_given msg =
     (case msg of None \<Rightarrow> None | Some m \<Rightarrow> if m = [] then None else Some m)"

definition handoffMessage :: "env \<Rightarrow> string \<Rightarrow> string \<Rightarrow> UnifiedMessage" where
  "handoffMessage ev thread m =
     \<lparr>message_id = ''handoff-'' @ date_now ev,
      thread_id = thread,
      msg_type = ''user'',
      is_llm_message = False,
      content = m,
      metadata = ''{}'',
      created_at = iso_created ev,
      updated_at = iso_updated ev\<rparr>"

definition add_handoff_message ::
  "env \<Rightarrow> string option \<Rightarrow> handoff_result
     \<Rightarrow> (rejection \<times> handoff_result) + handoff_result" where
  "add_handoff_message ev msg r =
     (case message_given msg of
        None \<Rightarrow> Inr r
      | Some m \<Rightarrow>
          let thread = threadId (state r);
              r1 = r\<lparr>state := (state r)\<lparr>messages := messages (state r)
                                                      @ [handoffMessage ev thread m]\<rparr>\<rparr>
          in (case addUserMessageMutation ev thread m of
                None \<Rightarrow> Inr (r1\<lparr>calls := calls r1 @ [AppendMessage thread m None]\<rparr>)
              | Some e \<Rightarrow>
                  Inl (e, r1\<lparr>calls := calls r1 @ [AppendMessage thread m (Some e)]\<rparr>)))"

text \<open>\<open>{ agent_id: agentId, ...currentModelSettings }\<close>\<close>

definition agentOptions :: "string \<Rightarrow> model_settings option \<Rightarrow> agent_options" where
  "agentOptions agentId settings =
     (case settings of
        None \<Rightarrow>
          \<lparr>model_name = None, enable_thinking = None, reasoning_effort = None,
           enable_context_manager = None, agent_id = agentId\<rparr>
      | Some ms \<Rightarrow>
          \<lparr>model_name = model_name ms, enable_thinking = enable_thinking ms,
           reasoning_effort = reasoning_effort ms,
           enable_context_manager = None, agent_id = agentId\<rparr>)"

definition start_target ::
  "env \<Rightarrow> string \<Rightarrow> handoff_result \<Rightarrow> (rejection \<times> handoff_result) + handoff_result" where
  "start_target ev agentId r =
     (let opts = agentOptions agentId (currentModelSettings (state r)) in
      case startAgentMutation ev (threadId (state r)) opts of
        Inl e \<Rightarrow>
          Inl (e, r\<lparr>calls := calls r @ [StartRun (threadId (state r)) opts (Inl e)]\<rparr>)
      | Inr rid \<Rightarrow>
          Inr (r\<lparr>state := (state r)\<lparr>currentAgentRunId := Some rid,
                                     selectedAgentId := agentId\<rparr>,
                 calls := calls r @ [StartRun (threadId (state r)) opts (Inr rid)],
                 toasts := toasts r @ [ToastSuccess ''Successfully switched to agent'']\<rparr>))"

definition and_then ::
  "(rejection \<times> handoff_result) + handoff_result
     \<Rightarrow> (handoff_result \<Rightarrow> (rejection \<times> handoff_result) + handoff_result)
     \<Rightarrow> (rejection \<times> handoff_result) + handoff_result" where
  "and_then x f = (case x of Inl er \<Rightarrow> Inl er | Inr r \<Rightarrow> f r)"

definition try_block ::
  "env \<Rightarrow> string \<Rightarrow> string option \<Rightarrow> handoff_result
     \<Rightarrow> (rejection \<times> handoff_result) + handoff_result" where
  "try_block ev agentId msg r =
     and_then (and_then (stop_current ev r) (add_handoff_message ev msg))
       (start_target ev agentId)"

text \<open>\<open>error.message || 'Failed to switch to agent'\<close>\<close>

definition errorMsg :: "rejection \<Rightarrow> string" where
  "errorMsg e =
     (case err_message e of
        None \<Rightarrow> ''Failed to switch to agent''
      | Some m \<Rightarrow> if m \<noteq> [] then m else ''Failed to switch to agent'')"

definition catch_block :: "rejection \<times> handoff_result \<Rightarrow> handoff_result" where
  "catch_block er =
     (case er of (e, r) \<Rightarrow>
        r\<lparr>state := (state r)\<lparr>error := Some (errorMsg e)\<rparr>,
          toasts := toasts r @ [ToastError (''Failed to switch to agent: '' @ errorMsg e)]\<rparr>)"

definition handleAgentCall ::
  "env \<Rightarrow> hook_state \<Rightarrow> string \<Rightarrow> string option \<Rightarrow> handoff_result" where
  "handleAgentCall ev s agentId msg =
     (if threadId s = [] then
        \<lparr>state = s\<lparr>error := Some ''No thread ID available for agent call''\<rparr>,
         calls = [], toasts = []\<rparr>
      else
        let r0 = \<lparr>state = s\<lparr>isLoading := True, error := None\<rparr>, calls = [], toasts = []\<rparr>;
            r1 = (case try_block ev agentId msg r0 of
                    Inr r \<Rightarrow> r
                  | Inl er \<Rightarrow> catch_block er)
        in r1\<lparr>state := (state r1)\<lparr>isLoading := False\<rparr>\<rparr>)"

text \<open>The handoff completed: the \<open>try\<close> block ran to its end.\<close>

definition handoff_succeeded :: "env \<Rightarrow> hook_state \<Rightarrow> string \<Rightarrow> string option \<Rightarrow> bool" where
  "handoff_succeeded ev s agentId msg =
     (threadId s \<noteq> [] \<and>
      (case try_block ev agentId msg
              \<lparr>state = s\<lparr>isLoading := True, error := None\<rparr>, calls = [], toasts = []\<rparr> of
         Inr r \<Rightarrow> True
       | Inl er \<Rightarrow> False))"

subsection \<open>The calls of a handoff, step by step\<close>

text \<open>
  Summaries of the first two steps, used to state what a handoff did: the call the stop
  step makes and whether it resolves, the call the message step makes and whether it
  resolves, and the state after the optimistic append.
\<close>

definition stop_events :: "env \<Rightarrow> hook_state \<Rightarrow> event list" where
  "stop_events ev s =
     (case run_to_stop s of None \<Rightarrow> [] | Some rid \<Rightarrow> [StopRun rid (stopAgentMutation ev rid)])"

definition append_events :: "env \<Rightarrow> hook_state \<Rightarrow> string option \<Rightarrow> event list" where
  "append_events ev s msg =
     (case message_given msg of
        None \<Rightarrow> []
      | Some m \<Rightarrow> [AppendMessage (threadId s) m (addUserMessageMutation ev (threadId s) m)])"

definition with_handoff_message :: "env \<Rightarrow> hook_state \<Rightarrow> string option \<Rightarrow> hook_state" where
  "with_handoff_message ev s msg =
     (case message_given msg of
        None \<Rightarrow> s
      | Some m \<Rightarrow> s\<lparr>messages := messages s @ [handoffMessage ev (threadId s) m]\<rparr>)"

definition stop_resolves :: "env \<Rightarrow> hook_state \<Rightarrow> bool" where
  "stop_resolves ev s =
     (case run_to_stop s of None \<Rightarrow> True | Some rid \<Rightarrow> stopAgentMutation ev rid = None)"

definition append_resolves :: "env \<Rightarrow> hook_state \<Rightarrow> string option \<Rightarrow> bool" where
  "append_resolves ev s msg =
     (case message_given msg of
        None \<Rightarrow> True
      | Some m \<Rightarrow> addUserMessageMutation ev (threadId s) m = None)"

text \<open>The start calls among the calls made.\<close>

fun is_start_run :: "event \<Rightarrow> bool" where
  "is_start_run (StartRun t opts res) = True"
| "is_start_run (StopRun rid res) = False"
| "is_start_run (AppendMessage t m res) = False"

section \<open>AgentPreview: status changes, stopping, submit options\<close>

datatype agent_status = Idle | Running | Connecting | Error

text \<open>
  The part of the component state that the handlers below read or write. The thread id
  and the messages carry a suffix, the hook's parameters having taken the plain names;
  \<open>threadId\<close> is \<open>string | null\<close> here.
\<close>

record preview_state =
  agentRunId :: "string option"
  agentStatus :: agent_status
  thinkingEnabled :: bool
  reasoningEffort :: string
  threadId_preview :: "string option"
  messages_preview :: "UnifiedMessage list"

definition handleStreamStatusChange :: "string \<Rightarrow> preview_state \<Rightarrow> preview_state" where
  "handleStreamStatusChange hookStatus p =
     (if hookStatus = ''idle'' \<or> hookStatus = ''completed'' \<or> hookStatus = ''stopped''
         \<or> hookStatus = ''agent_not_running'' \<or> hookStatus = ''error''
         \<or> hookStatus = ''failed''
      then p\<lparr>agentStatus := Idle, agentRunId := None\<rparr>
      else if hookStatus = ''connecting'' then p\<lparr>agentStatus := Connecting\<rparr>
      else if hookStatus = ''streaming'' then p\<lparr>agentStatus := Running\<rparr>
      else p)"

text \<open>The statuses on which \<open>handleStreamStatusChange\<close> clears the run id.\<close>

definition terminal_statuses :: "string list" where
  "terminal_statuses =
     [''idle'', ''completed'', ''stopped'', ''agent_not_running'', ''error'', ''failed'']"

text \<open>
  \<open>stopStreaming\<close> belongs to the \<open>useAgentStream\<close> hook, which is not under src/. What a
  call of it does is a parameter: the statuses the hook reports through \<open>onStatusChange\<close>
  while the call runs, in order and possibly none, and whether its promise rejects.
\<close>

record stream_stop =
  reported :: "string list"
  stream_rejected :: "rejection option"

text \<open>
  The outcome of \<open>handleStopAgent\<close>: the state, the calls made to the Run Controller, the
  reasons written to the console by the \<open>catch\<close> block, and the reason with which the
  promise of \<open>handleStopAgent\<close> itself rejects, if it does.
\<close>

record stop_result =
  preview :: preview_state
  stop_calls :: "event list"
  logged :: "rejection list"
  raised :: "rejection option"

text \<open>
  \<open>handleStopAgent\<close> sets the status to idle and awaits \<open>stopStreaming\<close> outside any
  \<open>try\<close>, so a rejection there ends the function. It then tests the \<open>agentRunId\<close> of the
  render that created the callback, that is the value before \<open>stopStreaming\<close> ran, and
  calls the stop mutation inside a \<open>try\<close> whose \<open>catch\<close> only writes to the console. It
  never calls \<open>setAgentRunId\<close>.
\<close>

definition handleStopAgent :: "env \<Rightarrow> stream_stop \<Rightarrow> preview_state \<Rightarrow> stop_result" where
  "handleStopAgent ev ss p =
     (let p1 = foldl (\<lambda>q st. handleStreamStatusChange st q) (p\<lparr>agentStatus := Idle\<rparr>)
                 (reported ss)
      in case stream_rejected ss of
           Some e \<Rightarrow> \<lparr>preview = p1, stop_calls = [], logged = [], raised = Some e\<rparr>
         | None \<Rightarrow>
             (case agentRunId p of
                None \<Rightarrow> \<lparr>preview = p1, stop_calls = [], logged = [], raised = None\<rparr>
              | Some rid \<Rightarrow>
                  if rid \<noteq> [] then
                    (case stopAgentMutation ev rid of
                       None \<Rightarrow>
                         \<lparr>preview = p1, stop_calls = [StopRun rid None], logged = [],
                          raised = None\<rparr>
                     | Some e \<Rightarrow>
                         \<lparr>preview = p1, stop_calls = [StopRun rid (Some e)], logged = [e],
                          raised = None\<rparr>)
                  else \<lparr>preview = p1, stop_calls = [], logged = [], raised = None\<rparr>))"

text \<open>
  The component's own \<open>handleAgentCall\<close>, wired as \<open>onAgentCall\<close> of the stream hook (the
  suffix tells it from the hook's). It looks the target agent up in the answer of
  \<open>/api/agents\<close>, which is a parameter: the fetch rejects, or yields the list of agents, or
  yields no list. Of an agent only the id and the name are read. The alert and the
  console output are left out.
\<close>

datatype agent = Agent (agent_ident: string) (agent_name: string)

record preview_handoff_result =
  p_state :: preview_state
  p_calls :: "event list"
  p_toasts :: "toast list"

text \<open>The \<open>catch\<close> block: \<^verbatim>\<open>toast.error(`Failed to switch to agent: ${error.message}`)\<close>.\<close>

definition preview_failed ::
  "rejection \<Rightarrow> preview_state \<Rightarrow> event list \<Rightarrow> preview_handoff_result" where
  "preview_failed e p cs =
     \<lparr>p_state = p, p_calls = cs,
      p_toasts = [ToastError (''Failed to switch to agent: ''
                    @ (case err_message e of None \<Rightarrow> ''undefined'' | Some m \<Rightarrow> m))]\<rparr>"

text \<open>
  The start of the target agent:
  \<^verbatim>\<open>startAgentMutation.mutateAsync({ threadId, options: { agent_id: targetAgent.agent_id } })\<close>.
\<close>

definition preview_start ::
  "env \<Rightarrow> string \<Rightarrow> agent \<Rightarrow> preview_state \<Rightarrow> event list \<Rightarrow> preview_handoff_result" where
  "preview_start ev thread targetAgent p cs =
     (let opts = \<lparr>model_name = None, enable_thinking = None, reasoning_effort = None,
                  enable_context_manager = None, agent_id = agent_ident targetAgent\<rparr>
      in case startAgentMutation ev thread opts of
           Inl e \<Rightarrow> preview_failed e p (cs @ [StartRun thread opts (Inl e)])
         | Inr rid \<Rightarrow>
             \<lparr>p_state = p\<lparr>agentRunId := Some rid\<rparr>,
              p_calls = cs @ [StartRun thread opts (Inr rid)],
              p_toasts = [ToastSuccess (''Switched to '' @ agent_name targetAgent)]\<rparr>)"

definition handleAgentCall_preview ::
  "env \<Rightarrow> rejection + agent list option \<Rightarrow> preview_state \<Rightarrow> string \<Rightarrow> string option
     \<Rightarrow> preview_handoff_result" where
  "handleAgentCall_preview ev fetched p agentId msg =
     (case threadId_preview p of
        None \<Rightarrow> \<lparr>p_state = p, p_calls = [], p_toasts = []\<rparr>
      | Some thread \<Rightarrow>
          if thread = [] then \<lparr>p_state = p, p_calls = [], p_toasts = []\<rparr>
          else
            (case fetched of
               Inl e \<Rightarrow> preview_failed e p []
             | Inr agents \<Rightarrow>
                 (case (case agents of
                          None \<Rightarrow> None
                        | Some as \<Rightarrow> find (\<lambda>a. agent_ident a = agentId) as) of
                    None \<Rightarrow>
                      \<lparr>p_state = p, p_calls = [],
                       p_toasts = [ToastError (''Agent with ID '' @ [CHR 0x22] @ agentId
                                     @ [CHR 0x22] @ '' not found'')]\<rparr>
                  | Some targetAgent \<Rightarrow>
                      (case message_given msg of
                         None \<Rightarrow> preview_start ev thread targetAgent p []
                       | Some m \<Rightarrow>
                           let p1 = p\<lparr>messages_preview :=
                                        messages_preview p @ [handoffMessage ev thread m]\<rparr>
                           in (case addUserMessageMutation ev thread m of
                                 Some e \<Rightarrow>
                                   preview_failed e p1 [AppendMessage thread m (Some e)]
                               | None \<Rightarrow>
                                   preview_start ev thread targetAgent p1
                                     [AppendMessage thread m None])))))"

text \<open>
  \<open>finalOptions\<close> of \<open>handleSubmitMessage\<close>, the options of its start mutation:
  \<^verbatim>\<open>{ agent_id: agent.agent_id, ...options,
    enable_thinking: options?.enable_thinking !== undefined ? options.enable_thinking : thinkingEnabled,
    reasoning_effort: options?.reasoning_effort || reasoningEffort }\<close>
\<close>

definition finalOptions ::
  "string \<Rightarrow> preview_state \<Rightarrow> submit_options option \<Rightarrow> agent_options" where
  "finalOptions agentId p options =
     \<lparr>model_name = (case options of None \<Rightarrow> None | Some opt \<Rightarrow> model_name opt),
      enable_thinking =
        Some (case options of
                None \<Rightarrow> thinkingEnabled p
              | Some opt \<Rightarrow>
                  (case enable_thinking opt of
                     Some b \<Rightarrow> b
                   | None \<Rightarrow> thinkingEnabled p)),
      reasoning_effort =
        Some (case options of
                None \<Rightarrow> reasoningEffort p
              | Some opt \<Rightarrow>
                  (case reasoning_effort opt of
                     Some e \<Rightarrow> if e \<noteq> [] then e else reasoningEffort p
                   | None \<Rightarrow> reasoningEffort p)),
      enable_context_manager =
        (case options of None \<Rightarrow> None | Some opt \<Rightarrow> enable_context_manager opt),
      agent_id = agentId\<rparr>"

section \<open>The Run Controller\<close>

text \<open>
  Modelled from the spec: the runs kept by the Run Controller, which is not under src/. A
  Run has a run id, a conversation id, an agent id and a status among starting, running,
  stopped, completed and failed; it is active while its status is starting or running.
\<close>

datatype run_status = RunStarting | RunRunning | RunStopped | RunCompleted | RunFailed

record run =
  run_id :: string
  conversation_id :: string
  run_agent :: string
  status :: run_status

definition active :: "run \<Rightarrow> bool" where
  "active r = (status r = RunStarting \<or> status r = RunRunning)"

text \<open>
  Modelled from the spec: the effect of each call on the runs, the backend behind the start
  and stop mutations not being under src/. The spec has \<open>startRun\<close> create a run for the
  conversation and the agent and return its id, and has \<open>stopRun\<close> stop the run,
  idempotently. A rejected call leaves the runs as they are, and the Message Store does not
  touch them.
\<close>

fun controller_step :: "event \<Rightarrow> run list \<Rightarrow> run list" where
  "controller_step (StopRun rid None) rs =
     map (\<lambda>r. if run_id r = rid \<and> active r then r\<lparr>status := RunStopped\<rparr> else r) rs"
| "controller_step (StopRun rid (Some e)) rs = rs"
| "controller_step (AppendMessage t m x) rs = rs"
| "controller_step (StartRun t opts (Inr rid)) rs =
     rs @ [\<lparr>run_id = rid, conversation_id = t, run_agent = agent_id opts,
            status = RunStarting\<rparr>]"
| "controller_step (StartRun t opts (Inl e)) rs = rs"

text \<open>The runs at each instant: before the first call and after each call.\<close>

fun observed :: "event list \<Rightarrow> run list \<Rightarrow> run list list" where
  "observed [] rs = [rs]"
| "observed (e # es) rs = rs # observed es (controller_step e rs)"

definition active_runs :: "string \<Rightarrow> run list \<Rightarrow> run list" where
  "active_runs t rs = filter (\<lambda>r. conversation_id r = t \<and> active r) rs"

section \<open>Scenarios\<close>

text \<open>
  Concrete surroundings and states for the worked examples: every mutation resolves and the
  start mutation answers run \<open>R2\<close>; a conversation \<open>T1\<close> whose run \<open>R1\<close> of the agent
  \<open>writer\<close> is running, with thinking enabled and high reasoning effort.
\<close>

definition env_ok :: env where
  "env_ok =
     \<lparr>stopAgentMutation = (\<lambda>rid. None),
      addUserMessageMutation = (\<lambda>t m. None),
      startAgentMutation = (\<lambda>t opts. Inr ''R2''),
      date_now = ''1700000000000'',
      iso_created = ''2023-11-14T22:13:20.000Z'',
      iso_updated = ''2023-11-14T22:13:20.000Z''\<rparr>"

text \<open>The same surroundings with one mutation rejecting.\<close>

definition env_stop_rejects :: env where
  "env_stop_rejects =
     env_ok\<lparr>stopAgentMutation := (\<lambda>rid. Some (Rejection (Some ''network down'')))\<rparr>"

definition env_append_rejects :: env where
  "env_append_rejects =
     env_ok\<lparr>addUserMessageMutation := (\<lambda>t m. Some (Rejection (Some ''save failed'')))\<rparr>"

definition env_start_rejects :: env where
  "env_start_rejects =
     env_ok\<lparr>startAgentMutation := (\<lambda>t opts. Inl (Rejection (Some ''quota exceeded'')))\<rparr>"

definition s_running :: hook_state where
  "s_running =
     \<lparr>threadId = ''T1'', currentAgentRunId = Some ''R1'', currentAgentStatus = ''running'',
      selectedAgentId = ''writer'', messages = [],
      currentModelSettings =
        Some \<lparr>model_name = None, enable_thinking = Some True,
              reasoning_effort = Some ''high''\<rparr>,
      isLoading = False, error = None\<rparr>"

text \<open>The same state while the stream of run \<open>R1\<close> is still connecting.\<close>

definition s_connecting :: hook_state where
  "s_connecting = s_running\<lparr>currentAgentStatus := ''connecting''\<rparr>"

text \<open>The preview component with run \<open>R1\<close> streaming.\<close>

definition p_running :: preview_state where
  "p_running =
     \<lparr>agentRunId = Some ''R1'', agentStatus = Running, thinkingEnabled = True,
      reasoningEffort = ''high'', threadId_preview = Some ''T1'', messages_preview = []\<rparr>"

text \<open>The agents \<open>/api/agents\<close> lists.\<close>

definition agents_listed :: "rejection + agent list option" where
  "agents_listed = Inr (Some [Agent ''writer'' ''Writer'', Agent ''agent-B'' ''Agent B''])"

text \<open>
  Two ways \<open>stopStreaming\<close> may go: the stream hook reports \<open>stopped\<close>, or it reports
  nothing; both resolve.
\<close>

definition stream_reports_stopped :: stream_stop where
  "stream_reports_stopped = \<lparr>reported = [''stopped''], stream_rejected = None\<rparr>"

definition stream_reports_nothing :: stream_stop where
  "stream_reports_nothing = \<lparr>reported = [], stream_rejected = None\<rparr>"

definition runs_R1 :: "run list" where
  "runs_R1 =
     [\<lparr>run_id = ''R1'', conversation_id = ''T1'', run_agent = ''writer'',
       status = RunRunning\<rparr>]"

section \<open>Properties of parseToolResult\<close>

lemma startsWith_iff: "startsWith s p \<longleftrightarrow> (\<exists>r. s = p @ r)"
  by (induction s p rule: startsWith.induct) auto

lemma includes_iff: "includes_str s t \<longleftrightarrow> (\<exists>ps ss. s = ps @ t @ ss)"
proof (induction s)
  case Nil
  then show ?case by auto
next
  case (Cons c s)
  show ?case
  proof
    assume "includes_str (c # s) t"
    then consider "startsWith (c # s) t" | "includes_str s t" by auto
    then show "\<exists>ps ss. c # s = ps @ t @ ss"
    proof cases
      case 1
      then obtain r where "c # s = t @ r" by (auto simp: startsWith_iff)
      then have "c # s = [] @ t @ r" by simp
      then show ?thesis by blast
    next
      case 2
      then obtain ps ss where "s = ps @ t @ ss" using Cons.IH by blast
      then have "c # s = (c # ps) @ t @ ss" by simp
      then show ?thesis by blast
    qed
  next
    assume "\<exists>ps ss. c # s = ps @ t @ ss"
    then obtain ps ss where e: "c # s = ps @ t @ ss" by blast
    show "includes_str (c # s) t"
    proof (cases ps)
      case Nil
      with e have "startsWith (c # s) t" by (auto simp: startsWith_iff)
      then show ?thesis by simp
    next
      case (Cons p ps')
      with e have "s = ps' @ t @ ss" by simp
      then have "includes_str s t" using Cons.IH by blast
      then show ?thesis by simp
    qed
  qed
qed

text \<open>
  C10. In \<open>parseToolResult\<close> the error test comes before every success test: for every
  truthy tool content whose string form contains \<open>Error:\<close> or \<open>error\<close> anywhere, the
  result is the failure record (the error message is the whole string, no images), whatever
  else the string contains: image links, success markers, or the word inside an image URL.
\<close>

theorem parseToolResult_error_first:
  assumes "truthy toolContent"
    and "contentStr toolContent = ps @ ''Error:'' @ ss \<or> contentStr toolContent = ps @ ''error'' @ ss"
  shows "parseToolResult toolContent =
           \<lparr>isEachlabsWorkflow = False, isGoogleImagen = False, isAsyncProcessing = False,
            hasImages = False, images = [], workflowDetails = None,
            errorMessage = Some (contentStr toolContent)\<rparr>"
proof -
  from assms(2) have "includes_str (contentStr toolContent) ''Error:''
      \<or> includes_str (contentStr toolContent) ''error''"
    unfolding includes_iff by blast
  with assms(1) show ?thesis
    by (simp add: parseToolResult_def Let_def)
qed

theorem parseToolResult_error_first_witness:
  "truthy (JsString (''[View Image](https://cdn.io/error.png) Image Generated Successfully''))
   \<and> parseToolResult
        (JsString (''[View Image](https://cdn.io/error.png) Image Generated Successfully''))
     = \<lparr>isEachlabsWorkflow = False, isGoogleImagen = False, isAsyncProcessing = False,
        hasImages = False, images = [], workflowDetails = None,
        errorMessage =
          Some ''[View Image](https://cdn.io/error.png) Image Generated Successfully''\<rparr>"
  using parseToolResult_error_first
    [of "JsString (''[View Image](https://cdn.io/error.png) Image Generated Successfully'')"
        "''[View Image](https://cdn.io/''" "''.png) Image Generated Successfully''"]
  by simp

section \<open>The handoff, case by case\<close>

lemma stop_current_resolved:
  "stop_resolves ev st \<Longrightarrow>
   stop_current ev \<lparr>state = st, calls = cs, toasts = ts\<rparr>
     = Inr \<lparr>state = st, calls = cs @ stop_events ev st, toasts = ts\<rparr>"
  by (cases "run_to_stop st")
     (simp_all add: stop_resolves_def stop_current_def stop_events_def)

lemma stop_current_rejected:
  "run_to_stop st = Some rid \<Longrightarrow> stopAgentMutation ev rid = Some e \<Longrightarrow>
   stop_current ev \<lparr>state = st, calls = cs, toasts = ts\<rparr>
     = Inl (e, \<lparr>state = st, calls = cs @ [StopRun rid (Some e)], toasts = ts\<rparr>)"
  by (simp add: stop_current_def)

lemma add_handoff_message_resolved:
  "append_resolves ev st msg \<Longrightarrow>
   add_handoff_message ev msg \<lparr>state = st, calls = cs, toasts = ts\<rparr>
     = Inr \<lparr>state = with_handoff_message ev st msg,
            calls = cs @ append_events ev st msg, toasts = ts\<rparr>"
  by (cases "message_given msg")
     (simp_all add: append_resolves_def add_handoff_message_def append_events_def
        with_handoff_message_def Let_def)

lemma add_handoff_message_rejected:
  "message_given msg = Some m \<Longrightarrow> addUserMessageMutation ev (threadId st) m = Some e \<Longrightarrow>
   add_handoff_message ev msg \<lparr>state = st, calls = cs, toasts = ts\<rparr>
     = Inl (e, \<lparr>state = st\<lparr>messages := messages st @ [handoffMessage ev (threadId st) m]\<rparr>,
                calls = cs @ [AppendMessage (threadId st) m (Some e)], toasts = ts\<rparr>)"
  by (simp add: add_handoff_message_def Let_def)

lemma start_target_unfold:
  "start_target ev agentId \<lparr>state = st, calls = cs, toasts = ts\<rparr> =
     (case startAgentMutation ev (threadId st) (agentOptions agentId (currentModelSettings st)) of
        Inl e \<Rightarrow>
          Inl (e, \<lparr>state = st,
                   calls = cs @ [StartRun (threadId st)
                                   (agentOptions agentId (currentModelSettings st)) (Inl e)],
                   toasts = ts\<rparr>)
      | Inr rid \<Rightarrow>
          Inr \<lparr>state = st\<lparr>currentAgentRunId := Some rid, selectedAgentId := agentId\<rparr>,
               calls = cs @ [StartRun (threadId st)
                               (agentOptions agentId (currentModelSettings st)) (Inr rid)],
               toasts = ts @ [ToastSuccess ''Successfully switched to agent'']\<rparr>)"
  by (simp add: start_target_def Let_def split: sum.split)

lemma stop_cases:
  obtains (resolved) "stop_resolves ev s"
  | (rejected) rid e where "run_to_stop s = Some rid" "stopAgentMutation ev rid = Some e"
  by (cases "run_to_stop s"; cases "stopAgentMutation ev (the (run_to_stop s))")
     (auto simp: stop_resolves_def)

lemma append_cases:
  obtains (resolved) "append_resolves ev s msg"
  | (rejected) m e where "message_given msg = Some m"
      "addUserMessageMutation ev (threadId s) m = Some e"
  by (cases "message_given msg";
      cases "addUserMessageMutation ev (threadId s) (the (message_given msg))")
     (auto simp: append_resolves_def)

lemma run_to_stop_loading [simp]:
  "run_to_stop (s\<lparr>isLoading := b, error := x\<rparr>) = run_to_stop s"
  by (simp add: run_to_stop_def split: option.split)

lemma stop_resolves_loading [simp]:
  "stop_resolves ev (s\<lparr>isLoading := b, error := x\<rparr>) = stop_resolves ev s"
  by (simp add: stop_resolves_def)

lemma stop_events_loading [simp]:
  "stop_events ev (s\<lparr>isLoading := b, error := x\<rparr>) = stop_events ev s"
  by (simp add: stop_events_def)

lemma append_resolves_loading [simp]:
  "append_resolves ev (s\<lparr>isLoading := b, error := x\<rparr>) msg = append_resolves ev s msg"
  by (simp add: append_resolves_def split: option.split)

lemma append_events_loading [simp]:
  "append_events ev (s\<lparr>isLoading := b, error := x\<rparr>) msg = append_events ev s msg"
  by (simp add: append_events_def split: option.split)

lemma with_handoff_message_loading [simp]:
  "with_handoff_message ev (s\<lparr>isLoading := b, error := x\<rparr>) msg
     = (with_handoff_message ev s msg)\<lparr>isLoading := b, error := x\<rparr>"
  by (simp add: with_handoff_message_def split: option.split)

lemma threadId_with_handoff_message [simp]:
  "threadId (with_handoff_message ev s msg) = threadId s"
  by (simp add: with_handoff_message_def split: option.split)

lemma currentModelSettings_with_handoff_message [simp]:
  "currentModelSettings (with_handoff_message ev s msg) = currentModelSettings s"
  by (simp add: with_handoff_message_def split: option.split)

lemma handleAgentCall_stop_rejected:
  assumes "threadId s \<noteq> []" "run_to_stop s = Some rid" "stopAgentMutation ev rid = Some e"
  shows "handleAgentCall ev s agentId msg =
           \<lparr>state = s\<lparr>isLoading := False, error := Some (errorMsg e)\<rparr>,
            calls = [StopRun rid (Some e)],
            toasts = [ToastError (''Failed to switch to agent: '' @ errorMsg e)]\<rparr>"
  using assms
  by (simp add: handleAgentCall_def try_block_def and_then_def catch_block_def
      stop_current_rejected [where rid = rid and e = e])

lemma handleAgentCall_append_rejected:
  assumes "threadId s \<noteq> []" "stop_resolves ev s" "message_given msg = Some m"
    "addUserMessageMutation ev (threadId s) m = Some e"
  shows "handleAgentCall ev s agentId msg =
           \<lparr>state = s\<lparr>messages := messages s @ [handoffMessage ev (threadId s) m],
                      isLoading := False, error := Some (errorMsg e)\<rparr>,
            calls = stop_events ev s @ [AppendMessage (threadId s) m (Some e)],
            toasts = [ToastError (''Failed to switch to agent: '' @ errorMsg e)]\<rparr>"
  using assms
  by (simp add: handleAgentCall_def try_block_def and_then_def catch_block_def
      stop_current_resolved add_handoff_message_rejected [where m = m and e = e])

lemma handleAgentCall_reaches_start:
  assumes "threadId s \<noteq> []" "stop_resolves ev s" "append_resolves ev s msg"
  shows "handleAgentCall ev s agentId msg =
     (case startAgentMutation ev (threadId s) (agentOptions agentId (currentModelSettings s)) of
        Inl e \<Rightarrow>
          \<lparr>state = (with_handoff_message ev s msg)
                     \<lparr>isLoading := False, error := Some (errorMsg e)\<rparr>,
           calls = stop_events ev s @ append_events ev s msg
                   @ [StartRun (threadId s) (agentOptions agentId (currentModelSettings s))
                        (Inl e)],
           toasts = [ToastError (''Failed to switch to agent: '' @ errorMsg e)]\<rparr>
      | Inr rid \<Rightarrow>
          \<lparr>state = (with_handoff_message ev s msg)
                     \<lparr>currentAgentRunId := Some rid, selectedAgentId := agentId,
                      isLoading := False, error := None\<rparr>,
           calls = stop_events ev s @ append_events ev s msg
                   @ [StartRun (threadId s) (agentOptions agentId (currentModelSettings s))
                        (Inr rid)],
           toasts = [ToastSuccess ''Successfully switched to agent'']\<rparr>)"
  using assms
  by (simp add: handleAgentCall_def try_block_def and_then_def catch_block_def
      stop_current_resolved add_handoff_message_resolved start_target_unfold
      split: sum.split)

lemma run_to_stop_SomeI:
  "currentAgentRunId s = Some rid \<Longrightarrow> rid \<noteq> [] \<Longrightarrow> currentAgentStatus s = ''running''
   \<Longrightarrow> run_to_stop s = Some rid"
  by (simp add: run_to_stop_def)

lemma run_to_stop_SomeD:
  "run_to_stop s = Some rid \<Longrightarrow>
   currentAgentRunId s = Some rid \<and> rid \<noteq> [] \<and> currentAgentStatus s = ''running''"
  by (cases "currentAgentRunId s") (auto simp: run_to_stop_def split: if_splits)

lemma message_given_SomeI: "m \<noteq> [] \<Longrightarrow> message_given (Some m) = Some m"
  by (simp add: message_given_def)

lemma stop_events_cases:
  "stop_events ev s = [] \<or> (\<exists>rid. run_to_stop s = Some rid
      \<and> stop_events ev s = [StopRun rid (stopAgentMutation ev rid)])"
  by (cases "run_to_stop s") (simp_all add: stop_events_def)

lemma append_events_cases:
  "append_events ev s msg = [] \<or> (\<exists>m. message_given msg = Some m
      \<and> append_events ev s msg
          = [AppendMessage (threadId s) m (addUserMessageMutation ev (threadId s) m)])"
  by (cases "message_given msg") (simp_all add: append_events_def)

lemma filter_start_stop_events [simp]: "filter is_start_run (stop_events ev s) = []"
  using stop_events_cases [of ev s] by auto

lemma filter_start_append_events [simp]: "filter is_start_run (append_events ev s msg) = []"
  using append_events_cases [of ev s msg] by auto

lemma with_handoff_message_fields [simp]:
  "currentAgentRunId (with_handoff_message ev s msg) = currentAgentRunId s"
  "selectedAgentId (with_handoff_message ev s msg) = selectedAgentId s"
  "currentAgentStatus (with_handoff_message ev s msg) = currentAgentStatus s"
  by (simp_all add: with_handoff_message_def split: option.split)

lemma calls_within:
  "set (calls (handleAgentCall ev s agentId msg))
     \<subseteq> set (stop_events ev s) \<union> set (append_events ev s msg)
       \<union> {StartRun (threadId s) (agentOptions agentId (currentModelSettings s))
            (startAgentMutation ev (threadId s)
               (agentOptions agentId (currentModelSettings s)))}"
proof (cases "threadId s = []")
  case True
  then show ?thesis by (simp add: handleAgentCall_def)
next
  case False
  show ?thesis
  proof (cases rule: stop_cases [of ev s])
    case rejected
    then show ?thesis
      using False by (simp add: handleAgentCall_stop_rejected stop_events_def)
  next
    case resolved
    show ?thesis
    proof (cases rule: append_cases [of ev s msg])
      case rejected
      then show ?thesis
        using False resolved
        by (auto simp: handleAgentCall_append_rejected append_events_def)
    next
      case resolved': resolved
      show ?thesis
        using False resolved resolved'
        by (cases "startAgentMutation ev (threadId s)
                     (agentOptions agentId (currentModelSettings s))")
           (auto simp: handleAgentCall_reaches_start)
    qed
  qed
qed

lemma handoff_succeeded_iff:
  "handoff_succeeded ev s agentId msg \<longleftrightarrow>
     threadId s \<noteq> [] \<and> stop_resolves ev s \<and> append_resolves ev s msg
     \<and> (\<exists>rid. startAgentMutation ev (threadId s)
                 (agentOptions agentId (currentModelSettings s)) = Inr rid)"
proof (cases rule: stop_cases [of ev s])
  case (rejected rid e)
  then have "\<not> stop_resolves ev s" by (simp add: stop_resolves_def)
  with rejected show ?thesis
    by (simp add: handoff_succeeded_def try_block_def and_then_def
        stop_current_rejected [where rid = rid and e = e])
next
  case resolved
  show ?thesis
  proof (cases rule: append_cases [of ev s msg])
    case (rejected m e)
    then have "\<not> append_resolves ev s msg" by (simp add: append_resolves_def)
    with rejected resolved show ?thesis
      by (simp add: handoff_succeeded_def try_block_def and_then_def
          stop_current_resolved add_handoff_message_rejected [where m = m and e = e])
  next
    case resolved': resolved
    with resolved show ?thesis
      by (cases "startAgentMutation ev (threadId s)
                   (agentOptions agentId (currentModelSettings s))")
         (simp_all add: handoff_succeeded_def try_block_def and_then_def
          stop_current_resolved add_handoff_message_resolved start_target_unfold)
  qed
qed

lemmas scenario_defs = env_ok_def env_stop_rejects_def env_append_rejects_def
  env_start_rejects_def s_running_def

lemmas step_defs = handleAgentCall_def try_block_def and_then_def stop_current_def
  add_handoff_message_def start_target_def catch_block_def run_to_stop_def message_given_def
  handoffMessage_def agentOptions_def errorMsg_def Let_def

section \<open>Failures during a handoff\<close>

text \<open>
  C3, as the code has it. The stop call is awaited inside the one \<open>try\<close> block of
  \<open>handleAgentCall\<close>: when the run held by the hook is running and the stop mutation
  rejects, the \<open>catch\<close> block takes over. The error is recorded and shown, the loading
  flag is cleared, nothing else changes, and the stop call is the only call made: neither
  the message nor the new run is attempted.
\<close>

theorem rejected_stop_aborts_handoff:
  assumes "threadId s \<noteq> []" "currentAgentRunId s = Some rid" "rid \<noteq> []"
    "currentAgentStatus s = ''running''" "stopAgentMutation ev rid = Some e"
  shows "handleAgentCall ev s agentId msg =
           \<lparr>state = s\<lparr>isLoading := False, error := Some (errorMsg e)\<rparr>,
            calls = [StopRun rid (Some e)],
            toasts = [ToastError (''Failed to switch to agent: '' @ errorMsg e)]\<rparr>"
  using assms by (simp add: handleAgentCall_stop_rejected run_to_stop_SomeI)

theorem rejected_stop_aborts_handoff_witness:
  "threadId s_running \<noteq> [] \<and> currentAgentRunId s_running = Some ''R1''
   \<and> currentAgentStatus s_running = ''running''
   \<and> stopAgentMutation env_stop_rejects ''R1'' = Some (Rejection (Some ''network down''))
   \<and> handleAgentCall env_stop_rejects s_running ''artist'' (Some ''please draw this'') =
       \<lparr>state = s_running\<lparr>isLoading := False, error := Some ''network down''\<rparr>,
        calls = [StopRun ''R1'' (Some (Rejection (Some ''network down'')))],
        toasts = [ToastError ''Failed to switch to agent: network down'']\<rparr>"
  using rejected_stop_aborts_handoff
    [of s_running "''R1''" env_stop_rejects "Rejection (Some ''network down'')"
        "''artist''" "Some ''please draw this''"]
  by (simp add: scenario_defs errorMsg_def)

text \<open>
  C3 as stated fails: with run \<open>R1\<close> running and the stop mutation rejecting, the handoff
  to \<open>artist\<close> makes the stop call and no start call, and reports the error.
\<close>

theorem rejected_stop_blocks_start:
  "calls (handleAgentCall env_stop_rejects s_running ''artist'' None)
     = [StopRun ''R1'' (Some (Rejection (Some ''network down'')))]
   \<and> filter is_start_run (calls (handleAgentCall env_stop_rejects s_running ''artist'' None))
     = []
   \<and> error (state (handleAgentCall env_stop_rejects s_running ''artist'' None))
     = Some ''network down''"
  by (simp add: scenario_defs step_defs)

text \<open>
  C5, as the code has it. When the stop step resolved and the message mutation rejects for
  a non-empty handoff message, the message appended beforehand stays in the local
  sequence, while the \<open>catch\<close> block records and shows the error as a failed switch:
  the calls end with the rejected append, and no start call is made.
\<close>

theorem rejected_append_aborts_handoff:
  assumes "threadId s \<noteq> []" "stop_resolves ev s" "m \<noteq> []"
    "addUserMessageMutation ev (threadId s) m = Some e"
  shows "handleAgentCall ev s agentId (Some m) =
           \<lparr>state = s\<lparr>messages := messages s @ [handoffMessage ev (threadId s) m],
                      isLoading := False, error := Some (errorMsg e)\<rparr>,
            calls = stop_events ev s @ [AppendMessage (threadId s) m (Some e)],
            toasts = [ToastError (''Failed to switch to agent: '' @ errorMsg e)]\<rparr>
         \<and> filter is_start_run (calls (handleAgentCall ev s agentId (Some m))) = []"
  using assms
  by (simp add: handleAgentCall_append_rejected message_given_SomeI)

theorem rejected_append_aborts_handoff_witness:
  "threadId s_running \<noteq> [] \<and> stop_resolves env_append_rejects s_running
   \<and> addUserMessageMutation env_append_rejects (threadId s_running) ''please draw this''
       = Some (Rejection (Some ''save failed''))
   \<and> handleAgentCall env_append_rejects s_running ''artist'' (Some ''please draw this'') =
       \<lparr>state = s_running
                  \<lparr>messages := [handoffMessage env_append_rejects ''T1'' ''please draw this''],
                   isLoading := False, error := Some ''save failed''\<rparr>,
        calls = [StopRun ''R1'' None,
                 AppendMessage ''T1'' ''please draw this''
                   (Some (Rejection (Some ''save failed'')))],
        toasts = [ToastError ''Failed to switch to agent: save failed'']\<rparr>"
  using rejected_append_aborts_handoff
    [of s_running env_append_rejects "''please draw this''" "Rejection (Some ''save failed'')"
        "''artist''"]
  by (simp add: scenario_defs errorMsg_def stop_resolves_def stop_events_def run_to_stop_def)

text \<open>
  C5 as stated fails: with the message mutation rejecting, the handoff carrying the message
  makes no start call, shows the failure toast and leaves the run id at \<open>R1\<close>.
\<close>

theorem rejected_append_blocks_start:
  "filter is_start_run
     (calls (handleAgentCall env_append_rejects s_running ''artist'' (Some ''please draw this'')))
     = []
   \<and> toasts (handleAgentCall env_append_rejects s_running ''artist''
                (Some ''please draw this''))
     = [ToastError ''Failed to switch to agent: save failed'']
   \<and> currentAgentRunId (state (handleAgentCall env_append_rejects s_running ''artist''
                                 (Some ''please draw this'')))
     = Some ''R1''"
  by (simp add: scenario_defs step_defs)

text \<open>
  C6, as the code has it. When the first two steps resolved and the start mutation rejects,
  the error is recorded and shown, the loading flag is cleared, the run id and the selected
  agent are left as they were before the call (the hook never clears the run id), and the
  rejected start call is the only start call: there is no retry.
\<close>

theorem rejected_start_keeps_run_id:
  assumes "threadId s \<noteq> []" "stop_resolves ev s" "append_resolves ev s msg"
    "startAgentMutation ev (threadId s) (agentOptions agentId (currentModelSettings s)) = Inl e"
  shows "error (state (handleAgentCall ev s agentId msg)) = Some (errorMsg e)
       \<and> toasts (handleAgentCall ev s agentId msg)
           = [ToastError (''Failed to switch to agent: '' @ errorMsg e)]
       \<and> currentAgentRunId (state (handleAgentCall ev s agentId msg)) = currentAgentRunId s
       \<and> selectedAgentId (state (handleAgentCall ev s agentId msg)) = selectedAgentId s
       \<and> isLoading (state (handleAgentCall ev s agentId msg)) = False
       \<and> filter is_start_run (calls (handleAgentCall ev s agentId msg))
           = [StartRun (threadId s) (agentOptions agentId (currentModelSettings s)) (Inl e)]"
  using assms by (simp add: handleAgentCall_reaches_start)

theorem rejected_start_keeps_run_id_witness:
  "threadId s_running \<noteq> [] \<and> stop_resolves env_start_rejects s_running
   \<and> append_resolves env_start_rejects s_running None
   \<and> error (state (handleAgentCall env_start_rejects s_running ''artist'' None))
       = Some ''quota exceeded''
   \<and> currentAgentRunId (state (handleAgentCall env_start_rejects s_running ''artist'' None))
       = Some ''R1''
   \<and> length (filter is_start_run
               (calls (handleAgentCall env_start_rejects s_running ''artist'' None))) = 1"
  using rejected_start_keeps_run_id
    [of s_running env_start_rejects None "''artist''" "Rejection (Some ''quota exceeded'')"]
  by (simp add: scenario_defs errorMsg_def stop_resolves_def append_resolves_def
      run_to_stop_def message_given_def)

text \<open>
  C6 as stated fails in the part "left unset": with run \<open>R1\<close> held by the hook and the
  start mutation rejecting, the run id after the call is still set.
\<close>

theorem rejected_start_run_id_still_set:
  "currentAgentRunId (state (handleAgentCall env_start_rejects s_running ''artist'' None))
     \<noteq> None"
  by (simp add: scenario_defs step_defs)

text \<open>
  C7, as the code has it. The guard of the stop step is \<open>currentAgentStatus === 'running'\<close>:
  when the hook holds a non-empty run id with that status, the first call made is the stop
  call for that run, so every start call comes after it.
\<close>

theorem running_run_stopped_first:
  assumes "threadId s \<noteq> []" "currentAgentRunId s = Some rid" "rid \<noteq> []"
    "currentAgentStatus s = ''running''"
  shows "\<exists>rest. calls (handleAgentCall ev s agentId msg)
                  = StopRun rid (stopAgentMutation ev rid) # rest
                \<and> filter is_start_run (calls (handleAgentCall ev s agentId msg))
                  = filter is_start_run rest"
proof -
  have r: "run_to_stop s = Some rid"
    using assms by (simp add: run_to_stop_SomeI)
  then have se: "stop_events ev s = [StopRun rid (stopAgentMutation ev rid)]"
    by (simp add: stop_events_def)
  show ?thesis
  proof (cases rule: stop_cases [of ev s])
    case (rejected rid' e)
    with r assms(1) show ?thesis
      by (simp add: handleAgentCall_stop_rejected)
  next
    case resolved
    show ?thesis
    proof (cases rule: append_cases [of ev s msg])
      case rejected
      with resolved assms(1) se show ?thesis
        by (simp add: handleAgentCall_append_rejected)
    next
      case resolved': resolved
      with resolved assms(1) se show ?thesis
        by (cases "startAgentMutation ev (threadId s)
                     (agentOptions agentId (currentModelSettings s))")
           (simp_all add: handleAgentCall_reaches_start)
    qed
  qed
qed

theorem running_run_stopped_first_witness:
  "threadId s_running \<noteq> [] \<and> currentAgentRunId s_running = Some ''R1''
   \<and> currentAgentStatus s_running = ''running''
   \<and> (\<exists>rest. calls (handleAgentCall env_ok s_running ''artist'' None)
                 = StopRun ''R1'' None # rest)"
  using running_run_stopped_first [of s_running "''R1''" env_ok "''artist''" None]
  by (auto simp: scenario_defs)

text \<open>
  C7 as stated fails for the status \<open>starting\<close>: the handoff makes the start call and no
  stop call.
\<close>

theorem starting_run_not_stopped:
  "calls (handleAgentCall env_ok (s_running\<lparr>currentAgentStatus := ''starting''\<rparr>)
            ''artist'' None)
     = [StartRun ''T1''
          \<lparr>model_name = None, enable_thinking = Some True, reasoning_effort = Some ''high'',
           enable_context_manager = None, agent_id = ''artist''\<rparr>
          (Inr ''R2'')]"
  by (simp add: scenario_defs step_defs)


section \<open>Arguments, settings and overlapping calls\<close>

text \<open>
  C2, as the code has it. \<open>handleAgentCall\<close> validates the thread id and nothing else.
  Without a thread id it records the error \<open>No thread ID available for agent call\<close>,
  changes nothing else and calls no collaborator. With a thread id the agent id is not
  inspected: once the stop step and the message step have resolved, the start call is made
  and carries the agent id as given, empty or blank ones included.
\<close>

theorem agent_id_not_validated:
  "(threadId s = [] \<longrightarrow>
      handleAgentCall ev s agentId msg =
        \<lparr>state = s\<lparr>error := Some ''No thread ID available for agent call''\<rparr>,
         calls = [], toasts = []\<rparr>)
   \<and> (threadId s \<noteq> [] \<and> stop_resolves ev s \<and> append_resolves ev s msg \<longrightarrow>
      calls (handleAgentCall ev s agentId msg) =
        stop_events ev s @ append_events ev s msg
        @ [StartRun (threadId s) (agentOptions agentId (currentModelSettings s))
             (startAgentMutation ev (threadId s)
                (agentOptions agentId (currentModelSettings s)))]
      \<and> agent_id (agentOptions agentId (currentModelSettings s)) = agentId)"
proof (intro conjI impI)
  assume "threadId s = []"
  then show "handleAgentCall ev s agentId msg =
        \<lparr>state = s\<lparr>error := Some ''No thread ID available for agent call''\<rparr>,
         calls = [], toasts = []\<rparr>"
    by (simp add: handleAgentCall_def)
next
  assume a: "threadId s \<noteq> [] \<and> stop_resolves ev s \<and> append_resolves ev s msg"
  then show "calls (handleAgentCall ev s agentId msg) =
        stop_events ev s @ append_events ev s msg
        @ [StartRun (threadId s) (agentOptions agentId (currentModelSettings s))
             (startAgentMutation ev (threadId s)
                (agentOptions agentId (currentModelSettings s)))]"
    by (cases "startAgentMutation ev (threadId s)
                 (agentOptions agentId (currentModelSettings s))")
       (simp_all add: handleAgentCall_reaches_start)
next
  show "agent_id (agentOptions agentId (currentModelSettings s)) = agentId"
    by (simp add: agentOptions_def split: option.split)
qed

theorem agent_id_not_validated_witness:
  "handleAgentCall env_ok (s_running\<lparr>threadId := []\<rparr>) ''  '' None =
     \<lparr>state = s_running\<lparr>threadId := [],
                          error := Some ''No thread ID available for agent call''\<rparr>,
      calls = [], toasts = []\<rparr>
   \<and> threadId s_running \<noteq> [] \<and> stop_resolves env_ok s_running
   \<and> append_resolves env_ok s_running None
   \<and> calls (handleAgentCall env_ok s_running ''  '' None) =
       [StopRun ''R1'' None,
        StartRun ''T1''
          \<lparr>model_name = None, enable_thinking = Some True, reasoning_effort = Some ''high'',
           enable_context_manager = None, agent_id = ''  ''\<rparr>
          (Inr ''R2'')]"
  using agent_id_not_validated [of "s_running\<lparr>threadId := []\<rparr>" env_ok "''  ''" None]
    agent_id_not_validated [of s_running env_ok "''  ''" None]
  by (simp add: scenario_defs stop_resolves_def append_resolves_def stop_events_def
      append_events_def run_to_stop_def message_given_def agentOptions_def)

text \<open>
  C2 as stated fails: the handoff to the empty agent id stops run \<open>R1\<close>, starts a run for
  the empty id and stores the new run id and the empty selected agent; the handoff to the
  blank id \<open>"  "\<close> ends with the success toast and selects the blank id.
\<close>

theorem blank_agent_id_starts_run:
  "calls (handleAgentCall env_ok s_running '''' None) =
     [StopRun ''R1'' None,
      StartRun ''T1''
        \<lparr>model_name = None, enable_thinking = Some True, reasoning_effort = Some ''high'',
         enable_context_manager = None, agent_id = ''''\<rparr>
        (Inr ''R2'')]
   \<and> state (handleAgentCall env_ok s_running '''' None) =
       s_running\<lparr>currentAgentRunId := Some ''R2'', selectedAgentId := ''''\<rparr>
   \<and> toasts (handleAgentCall env_ok s_running ''  '' None) =
       [ToastSuccess ''Successfully switched to agent'']
   \<and> selectedAgentId (state (handleAgentCall env_ok s_running ''  '' None)) = ''  ''"
  by (simp add: scenario_defs step_defs)

text \<open>
  Settings across a handoff. The hook does what C4 says: every start call it makes carries
  the target agent id and the current model settings, and \<open>handleSubmitMessage\<close> sends
  the component's thinking flag and reasoning effort unless the options override them.
\<close>

lemma hook_start_carries_settings:
  assumes "StartRun t opts res \<in> set (calls (handleAgentCall ev s agentId msg))"
  shows "opts = agentOptions agentId (currentModelSettings s)"
proof -
  from assms
  have "StartRun t opts res \<in> set (stop_events ev s) \<union> set (append_events ev s msg)
       \<union> {StartRun (threadId s) (agentOptions agentId (currentModelSettings s))
            (startAgentMutation ev (threadId s)
               (agentOptions agentId (currentModelSettings s)))}"
    using calls_within [of ev s agentId msg] by blast
  then show ?thesis
    using stop_events_cases [of ev s] append_events_cases [of ev s msg] by auto
qed

lemma agentOptions_settings:
  "agentOptions agentId (Some ms) =
     \<lparr>model_name = model_name ms, enable_thinking = enable_thinking ms,
      reasoning_effort = reasoning_effort ms, enable_context_manager = None,
      agent_id = agentId\<rparr>"
  by (simp add: agentOptions_def)

lemma finalOptions_without_options:
  "enable_thinking (finalOptions ownId p None) = Some (thinkingEnabled p)"
  "reasoning_effort (finalOptions ownId p None) = Some (reasoningEffort p)"
  by (simp_all add: finalOptions_def)

lemma finalOptions_override_honoured:
  "model_name (finalOptions ownId p (Some opt)) = model_name opt"
  "enable_thinking opt = Some b \<Longrightarrow>
     enable_thinking (finalOptions ownId p (Some opt)) = Some b"
  "reasoning_effort opt = Some e \<Longrightarrow> e \<in> {''low'', ''medium'', ''high''} \<Longrightarrow>
     reasoning_effort (finalOptions ownId p (Some opt)) = Some e"
  by (auto simp: finalOptions_def)

lemma finalOptions_absent_override:
  "enable_thinking opt = None \<Longrightarrow>
     enable_thinking (finalOptions ownId p (Some opt)) = Some (thinkingEnabled p)"
  "reasoning_effort opt = None \<Longrightarrow>
     reasoning_effort (finalOptions ownId p (Some opt)) = Some (reasoningEffort p)"
  by (simp_all add: finalOptions_def)

text \<open>
  The component's own \<open>handleAgentCall\<close> does not: whatever the component's settings are,
  the options of its start call hold the agent id and nothing else.
\<close>

lemma preview_start_options:
  "set (p_calls (preview_start ev thread targetAgent p cs))
     \<subseteq> set cs \<union> {StartRun thread
                      \<lparr>model_name = None, enable_thinking = None, reasoning_effort = None,
                       enable_context_manager = None, agent_id = agent_ident targetAgent\<rparr>
                      (startAgentMutation ev thread
                         \<lparr>model_name = None, enable_thinking = None,
                          reasoning_effort = None, enable_context_manager = None,
                          agent_id = agent_ident targetAgent\<rparr>)}"
  by (cases "startAgentMutation ev thread
               \<lparr>model_name = None, enable_thinking = None, reasoning_effort = None,
                enable_context_manager = None, agent_id = agent_ident targetAgent\<rparr>")
     (auto simp: preview_start_def preview_failed_def Let_def)

lemma preview_handoff_start_options:
  assumes "StartRun t opts res
             \<in> set (p_calls (handleAgentCall_preview ev fetched p agentId msg))"
  shows "model_name opts = None \<and> enable_thinking opts = None
         \<and> reasoning_effort opts = None"
proof -
  have start: "model_name opts = None \<and> enable_thinking opts = None
               \<and> reasoning_effort opts = None"
    if "StartRun t opts res \<in> set (p_calls (preview_start ev thread targetAgent q cs))"
      and "\<forall>c\<in>set cs. \<not> is_start_run c"
    for thread targetAgent q cs
  proof -
    let ?opts = "\<lparr>model_name = None, enable_thinking = None, reasoning_effort = None,
                  enable_context_manager = None, agent_id = agent_ident targetAgent\<rparr>"
    from that(1) preview_start_options [of ev thread targetAgent q cs]
    have "StartRun t opts res \<in> set cs
          \<or> StartRun t opts res = StartRun thread ?opts (startAgentMutation ev thread ?opts)"
      by blast
    moreover from that(2) have "StartRun t opts res \<notin> set cs"
      by force
    ultimately have "opts = ?opts" by simp
    then show ?thesis by simp
  qed
  show ?thesis
  proof (cases "threadId_preview p")
    case None
    with assms show ?thesis by (simp add: handleAgentCall_preview_def)
  next
    case (Some thread)
    show ?thesis
    proof (cases "thread = []")
      case True
      with assms Some show ?thesis by (simp add: handleAgentCall_preview_def)
    next
      case False
      show ?thesis
      proof (cases fetched)
        case (Inl e)
        with assms Some False show ?thesis
          by (simp add: handleAgentCall_preview_def preview_failed_def)
      next
        case (Inr agents)
        show ?thesis
        proof (cases "case agents of None \<Rightarrow> None
                      | Some as \<Rightarrow> find (\<lambda>a. agent_ident a = agentId) as")
          case None
          with assms Some False Inr show ?thesis
            by (simp add: handleAgentCall_preview_def)
        next
          case found: (Some targetAgent)
          show ?thesis
          proof (cases "message_given msg")
            case None
            with assms Some False Inr found
            have "StartRun t opts res
                    \<in> set (p_calls (preview_start ev thread targetAgent p []))"
              by (simp add: handleAgentCall_preview_def)
            then show ?thesis by (rule start) simp
          next
            case given: (Some m)
            show ?thesis
            proof (cases "addUserMessageMutation ev thread m")
              case None
              with assms Some False Inr found given
              have "StartRun t opts res
                      \<in> set (p_calls (preview_start ev thread targetAgent
                                 (p\<lparr>messages_preview :=
                                      messages_preview p @ [handoffMessage ev thread m]\<rparr>)
                                 [AppendMessage thread m None]))"
                by (simp add: handleAgentCall_preview_def Let_def)
              then show ?thesis by (rule start) simp
            next
              case rejected: (Some e)
              with assms Some False Inr found given show ?thesis
                by (simp add: handleAgentCall_preview_def preview_failed_def Let_def)
            qed
          qed
        qed
      qed
    qed
  qed
qed

text \<open>
  C4. The claim is broken by the component's own \<open>handleAgentCall\<close>: with thinking enabled
  and reasoning effort \<open>high\<close> in the component, a handoff to \<open>agent-B\<close> with no message
  starts the run with the agent id alone, thinking and reasoning effort absent. The hook,
  with the same settings, sends them.
\<close>

theorem preview_handoff_drops_settings:
  "thinkingEnabled p_running = True \<and> reasoningEffort p_running = ''high''
   \<and> p_calls (handleAgentCall_preview env_ok agents_listed p_running ''agent-B'' None) =
       [StartRun ''T1''
          \<lparr>model_name = None, enable_thinking = None, reasoning_effort = None,
           enable_context_manager = None, agent_id = ''agent-B''\<rparr>
          (Inr ''R2'')]
   \<and> p_toasts (handleAgentCall_preview env_ok agents_listed p_running ''agent-B'' None) =
       [ToastSuccess ''Switched to Agent B'']
   \<and> filter is_start_run (calls (handleAgentCall env_ok s_running ''agent-B'' None)) =
       [StartRun ''T1''
          \<lparr>model_name = None, enable_thinking = Some True, reasoning_effort = Some ''high'',
           enable_context_manager = None, agent_id = ''agent-B''\<rparr>
          (Inr ''R2'')]"
proof -
  have 1: "p_calls (handleAgentCall_preview env_ok agents_listed p_running ''agent-B'' None) =
       [StartRun ''T1''
          \<lparr>model_name = None, enable_thinking = None, reasoning_effort = None,
           enable_context_manager = None, agent_id = ''agent-B''\<rparr>
          (Inr ''R2'')]"
    by (simp add: handleAgentCall_preview_def preview_start_def message_given_def
        agents_listed_def p_running_def env_ok_def Let_def)
  have 2: "p_toasts (handleAgentCall_preview env_ok agents_listed p_running ''agent-B'' None) =
       [ToastSuccess ''Switched to Agent B'']"
    by (simp add: handleAgentCall_preview_def preview_start_def message_given_def
        agents_listed_def p_running_def env_ok_def Let_def)
  have 3: "filter is_start_run (calls (handleAgentCall env_ok s_running ''agent-B'' None)) =
       [StartRun ''T1''
          \<lparr>model_name = None, enable_thinking = Some True, reasoning_effort = Some ''high'',
           enable_context_manager = None, agent_id = ''agent-B''\<rparr>
          (Inr ''R2'')]"
    by (simp add: scenario_defs step_defs)
  have 4: "thinkingEnabled p_running = True \<and> reasoningEffort p_running = ''high''"
    by (simp add: p_running_def)
  from 1 2 3 4 show ?thesis by simp
qed

text \<open>
  C9, as the code has it. \<open>handleAgentCall\<close> never reads \<open>isLoading\<close>: a call made while
  the flag is set, that is while another handoff is in flight, is not rejected and runs
  exactly as it would with the flag clear. (Without a thread id the flag is left as it
  was.)
\<close>

theorem isLoading_not_consulted:
  "handleAgentCall ev (s\<lparr>isLoading := b\<rparr>) agentId msg =
     (if threadId s = [] then
        \<lparr>state = s\<lparr>isLoading := b, error := Some ''No thread ID available for agent call''\<rparr>,
         calls = [], toasts = []\<rparr>
      else handleAgentCall ev s agentId msg)"
  by (simp add: handleAgentCall_def)

theorem isLoading_not_consulted_witness:
  "handleAgentCall env_ok (s_running\<lparr>isLoading := True\<rparr>) ''coder'' None
     = handleAgentCall env_ok s_running ''coder'' None"
  using isLoading_not_consulted
    [where ev = env_ok and s = s_running and b = True and agentId = "''coder''" and msg = None]
  by (simp add: s_running_def)

text \<open>
  C9 as stated fails: with \<open>isLoading\<close> set by a handoff in flight, a second handoff to
  \<open>coder\<close> makes its own stop and start calls, records no error and ends with the success
  toast.
\<close>

theorem second_handoff_not_rejected:
  "isLoading (s_running\<lparr>isLoading := True\<rparr>)
   \<and> calls (handleAgentCall env_ok (s_running\<lparr>isLoading := True\<rparr>) ''coder'' None) =
       [StopRun ''R1'' None,
        StartRun ''T1''
          \<lparr>model_name = None, enable_thinking = Some True, reasoning_effort = Some ''high'',
           enable_context_manager = None, agent_id = ''coder''\<rparr>
          (Inr ''R2'')]
   \<and> error (state (handleAgentCall env_ok (s_running\<lparr>isLoading := True\<rparr>) ''coder'' None))
       = None
   \<and> toasts (handleAgentCall env_ok (s_running\<lparr>isLoading := True\<rparr>) ''coder'' None)
       = [ToastSuccess ''Successfully switched to agent'']"
  by (simp add: scenario_defs step_defs)

section \<open>Stopping the agent\<close>

lemma agentRunId_status_change:
  "agentRunId (handleStreamStatusChange st q)
     = (if st \<in> set terminal_statuses then None else agentRunId q)"
  by (simp add: handleStreamStatusChange_def terminal_statuses_def)

lemma agentRunId_status_changes:
  "agentRunId (foldl (\<lambda>q st. handleStreamStatusChange st q) q sts)
     = (if set sts \<inter> set terminal_statuses = {} then agentRunId q else None)"
proof (induction sts arbitrary: q)
  case Nil
  then show ?case by simp
next
  case (Cons st sts)
  show ?case
  proof (cases "st \<in> set terminal_statuses")
    case True
    then show ?thesis
      by (simp add: Cons.IH agentRunId_status_change)
  next
    case False
    then show ?thesis
      by (simp add: Cons.IH agentRunId_status_change)
  qed
qed

lemma preview_handleStopAgent:
  "preview (handleStopAgent ev ss p)
     = foldl (\<lambda>q st. handleStreamStatusChange st q) (p\<lparr>agentStatus := Idle\<rparr>) (reported ss)"
  by (cases "stream_rejected ss"; cases "agentRunId p";
      cases "stopAgentMutation ev (the (agentRunId p))")
     (simp_all add: handleStopAgent_def Let_def)

lemma raised_handleStopAgent: "raised (handleStopAgent ev ss p) = stream_rejected ss"
  by (cases "stream_rejected ss"; cases "agentRunId p";
      cases "stopAgentMutation ev (the (agentRunId p))")
     (simp_all add: handleStopAgent_def Let_def)

lemma stop_calls_handleStopAgent:
  "stream_rejected ss = None \<Longrightarrow>
   stop_calls (handleStopAgent ev ss p) =
     (case agentRunId p of
        None \<Rightarrow> []
      | Some rid \<Rightarrow> if rid \<noteq> [] then [StopRun rid (stopAgentMutation ev rid)] else [])"
  by (cases "agentRunId p"; cases "stopAgentMutation ev (the (agentRunId p))")
     (simp_all add: handleStopAgent_def Let_def)

lemma logged_handleStopAgent:
  "stream_rejected ss = None \<Longrightarrow>
   logged (handleStopAgent ev ss p) =
     (case agentRunId p of
        None \<Rightarrow> []
      | Some rid \<Rightarrow>
          if rid \<noteq> [] then (case stopAgentMutation ev rid of None \<Rightarrow> [] | Some e \<Rightarrow> [e])
          else [])"
  by (cases "agentRunId p"; cases "stopAgentMutation ev (the (agentRunId p))")
     (simp_all add: handleStopAgent_def Let_def)

lemma stop_calls_no_run:
  "agentRunId p = None \<Longrightarrow> stop_calls (handleStopAgent ev ss p) = []"
  by (cases "stream_rejected ss") (simp_all add: handleStopAgent_def Let_def)

text \<open>
  C8, as the code has it. \<open>handleStopAgent\<close> rejects exactly when \<open>stopStreaming\<close> does: a
  rejected stop call is caught and only logged, and the state afterwards is the same
  whether the stop call resolved or rejected. When \<open>stopStreaming\<close> resolves, the Run
  Controller is asked to stop exactly a non-empty run id held at the call, and is not
  called when none is held. \<open>handleStopAgent\<close> does not clear the run id itself: afterwards
  the run id is unset if the stream hook reported one of the statuses idle, completed,
  stopped, agent_not_running, error or failed, and is what it was otherwise. Once the run
  id is unset, a further stop makes no call and leaves it unset.
\<close>

theorem stop_clears_run_id_on_status_report:
  "raised (handleStopAgent ev ss p) = stream_rejected ss
   \<and> preview (handleStopAgent ev ss p) = preview (handleStopAgent ev' ss p)
   \<and> (stream_rejected ss = None \<longrightarrow>
        stop_calls (handleStopAgent ev ss p) =
          (case agentRunId p of
             None \<Rightarrow> []
           | Some rid \<Rightarrow> if rid \<noteq> [] then [StopRun rid (stopAgentMutation ev rid)] else [])
        \<and> logged (handleStopAgent ev ss p) =
          (case agentRunId p of
             None \<Rightarrow> []
           | Some rid \<Rightarrow>
               if rid \<noteq> [] then
                 (case stopAgentMutation ev rid of None \<Rightarrow> [] | Some e \<Rightarrow> [e])
               else []))
   \<and> agentRunId (preview (handleStopAgent ev ss p)) =
       (if set (reported ss) \<inter> set terminal_statuses = {} then agentRunId p else None)
   \<and> (agentRunId (preview (handleStopAgent ev ss p)) = None \<longrightarrow>
        stop_calls (handleStopAgent ev' ss' (preview (handleStopAgent ev ss p))) = []
        \<and> agentRunId (preview (handleStopAgent ev' ss' (preview (handleStopAgent ev ss p))))
            = None)"
proof -
  have 1: "raised (handleStopAgent ev ss p) = stream_rejected ss"
    by (rule raised_handleStopAgent)
  have 2: "preview (handleStopAgent ev ss p) = preview (handleStopAgent ev' ss p)"
    by (simp add: preview_handleStopAgent)
  have 3: "stream_rejected ss = None \<longrightarrow>
        stop_calls (handleStopAgent ev ss p) =
          (case agentRunId p of
             None \<Rightarrow> []
           | Some rid \<Rightarrow> if rid \<noteq> [] then [StopRun rid (stopAgentMutation ev rid)] else [])
        \<and> logged (handleStopAgent ev ss p) =
          (case agentRunId p of
             None \<Rightarrow> []
           | Some rid \<Rightarrow>
               if rid \<noteq> [] then
                 (case stopAgentMutation ev rid of None \<Rightarrow> [] | Some e \<Rightarrow> [e])
               else [])"
    using stop_calls_handleStopAgent [of ss ev p] logged_handleStopAgent [of ss ev p]
    by blast
  have 4: "agentRunId (preview (handleStopAgent ev ss p)) =
       (if set (reported ss) \<inter> set terminal_statuses = {} then agentRunId p else None)"
    by (simp add: preview_handleStopAgent agentRunId_status_changes)
  have 5: "agentRunId (preview (handleStopAgent ev ss p)) = None \<longrightarrow>
        stop_calls (handleStopAgent ev' ss' (preview (handleStopAgent ev ss p))) = []
        \<and> agentRunId (preview (handleStopAgent ev' ss' (preview (handleStopAgent ev ss p))))
            = None"
  proof
    assume n: "agentRunId (preview (handleStopAgent ev ss p)) = None"
    then have "stop_calls (handleStopAgent ev' ss' (preview (handleStopAgent ev ss p))) = []"
      by (rule stop_calls_no_run)
    moreover have
      "agentRunId (preview (handleStopAgent ev' ss' (preview (handleStopAgent ev ss p))))
         = None"
      using n by (simp add: preview_handleStopAgent [of ev' ss'] agentRunId_status_changes)
    ultimately show
      "stop_calls (handleStopAgent ev' ss' (preview (handleStopAgent ev ss p))) = []
       \<and> agentRunId (preview (handleStopAgent ev' ss' (preview (handleStopAgent ev ss p))))
           = None"
      by simp
  qed
  from 1 2 3 4 5 show ?thesis by blast
qed

theorem stop_clears_run_id_on_status_report_witness:
  "stream_rejected stream_reports_stopped = None
   \<and> raised (handleStopAgent env_stop_rejects stream_reports_stopped p_running) = None
   \<and> stop_calls (handleStopAgent env_stop_rejects stream_reports_stopped p_running)
       = [StopRun ''R1'' (Some (Rejection (Some ''network down'')))]
   \<and> logged (handleStopAgent env_stop_rejects stream_reports_stopped p_running)
       = [Rejection (Some ''network down'')]
   \<and> preview (handleStopAgent env_stop_rejects stream_reports_stopped p_running)
       = preview (handleStopAgent env_ok stream_reports_stopped p_running)
   \<and> agentRunId (preview (handleStopAgent env_stop_rejects stream_reports_stopped p_running))
       = None
   \<and> stop_calls
        (handleStopAgent env_stop_rejects stream_reports_stopped
           (preview (handleStopAgent env_stop_rejects stream_reports_stopped p_running)))
       = []
   \<and> agentRunId
        (preview
           (handleStopAgent env_stop_rejects stream_reports_stopped
              (preview (handleStopAgent env_stop_rejects stream_reports_stopped p_running))))
       = None"
proof -
  note inst = stop_clears_run_id_on_status_report
    [where ev = env_stop_rejects and ss = stream_reports_stopped and p = p_running
       and ev' = env_ok]
  note again = stop_clears_run_id_on_status_report
    [where ev = env_stop_rejects and ss = stream_reports_stopped and p = p_running
       and ev' = env_stop_rejects and ss' = stream_reports_stopped]
  have r: "stream_rejected stream_reports_stopped = None"
    by (simp add: stream_reports_stopped_def)
  have t: "set (reported stream_reports_stopped) \<inter> set terminal_statuses \<noteq> {}"
    by (simp add: stream_reports_stopped_def terminal_statuses_def)
  have i: "agentRunId p_running = Some ''R1''"
    "stopAgentMutation env_stop_rejects ''R1'' = Some (Rejection (Some ''network down''))"
    by (simp_all add: p_running_def env_stop_rejects_def env_ok_def)
  from inst r have a: "raised (handleStopAgent env_stop_rejects stream_reports_stopped p_running)
                        = None"
    by simp
  from inst r i have b:
    "stop_calls (handleStopAgent env_stop_rejects stream_reports_stopped p_running)
       = [StopRun ''R1'' (Some (Rejection (Some ''network down'')))]"
    "logged (handleStopAgent env_stop_rejects stream_reports_stopped p_running)
       = [Rejection (Some ''network down'')]"
    by simp_all
  from inst have c:
    "preview (handleStopAgent env_stop_rejects stream_reports_stopped p_running)
       = preview (handleStopAgent env_ok stream_reports_stopped p_running)"
    by blast
  from inst have
    "agentRunId (preview (handleStopAgent env_stop_rejects stream_reports_stopped p_running))
       = (if set (reported stream_reports_stopped) \<inter> set terminal_statuses = {}
          then agentRunId p_running else None)"
    by blast
  with t have d:
    "agentRunId (preview (handleStopAgent env_stop_rejects stream_reports_stopped p_running))
       = None"
    by simp
  from again d have e:
    "stop_calls
        (handleStopAgent env_stop_rejects stream_reports_stopped
           (preview (handleStopAgent env_stop_rejects stream_reports_stopped p_running)))
       = []"
    "agentRunId
        (preview
           (handleStopAgent env_stop_rejects stream_reports_stopped
              (preview (handleStopAgent env_stop_rejects stream_reports_stopped p_running))))
       = None"
    by blast+
  from r a b c d e show ?thesis by blast
qed

text \<open>
  C8 as stated fails: when the stream hook reports no status while \<open>stopStreaming\<close> runs,
  the run id is still \<open>R1\<close> after \<open>handleStopAgent\<close>, although the stop call resolved, and
  a second stop asks the Run Controller to stop \<open>R1\<close> again.
\<close>

theorem stop_without_status_report_keeps_run_id:
  "stop_calls (handleStopAgent env_ok stream_reports_nothing p_running)
     = [StopRun ''R1'' None]
   \<and> agentRunId (preview (handleStopAgent env_ok stream_reports_nothing p_running))
     = Some ''R1''
   \<and> stop_calls
        (handleStopAgent env_ok stream_reports_nothing
           (preview (handleStopAgent env_ok stream_reports_nothing p_running)))
     = [StopRun ''R1'' None]"
  by (simp add: handleStopAgent_def stream_reports_nothing_def p_running_def env_ok_def
      Let_def)

section \<open>Active runs across a handoff\<close>

lemma observed_head: "rs \<in> set (observed es rs)"
  by (cases es) simp_all

lemma observed_append:
  "set (observed (xs @ ys) rs) = set (observed xs rs) \<union> set (observed ys (fold controller_step xs rs))"
  by (induction xs arbitrary: rs) (auto simp: observed_head)

lemma observed_nonempty [simp]: "observed es rs \<noteq> []"
  by (cases es) simp_all

lemma last_observed: "last (observed es rs) = fold controller_step es rs"
  by (induction es arbitrary: rs) simp_all

lemma observed_stop_events:
  "set (observed (stop_events ev s) rs) = {rs, fold controller_step (stop_events ev s) rs}"
  using stop_events_cases [of ev s] by auto

lemma observed_append_events:
  "set (observed (append_events ev s msg) rs) = {rs}"
  "fold controller_step (append_events ev s msg) rs = rs"
  using append_events_cases [of ev s msg] by auto

lemma active_runs_snoc:
  "active_runs t (rs @ [\<lparr>run_id = rid, conversation_id = t, run_agent = a,
                          status = RunStarting\<rparr>])
     = active_runs t rs @ [\<lparr>run_id = rid, conversation_id = t, run_agent = a,
                            status = RunStarting\<rparr>]"
  by (simp add: active_runs_def active_def)

lemma no_active_run_after_stop_step:
  assumes res: "stop_resolves ev s"
    and held: "\<forall>r\<in>set rs. conversation_id r = threadId s \<and> active r \<longrightarrow>
                 currentAgentRunId s = Some (run_id r) \<and> run_id r \<noteq> []
                 \<and> currentAgentStatus s = ''running''"
  shows "active_runs (threadId s) (fold controller_step (stop_events ev s) rs) = []"
proof (cases "run_to_stop s")
  case None
  have "\<not> (conversation_id r = threadId s \<and> active r)" if "r \<in> set rs" for r
  proof
    assume "conversation_id r = threadId s \<and> active r"
    with held that have "run_to_stop s = Some (run_id r)"
      by (simp add: run_to_stop_SomeI)
    with None show False by simp
  qed
  then show ?thesis
    using None by (simp add: stop_events_def active_runs_def filter_empty_conv)
next
  case (Some rid0)
  with res have ok: "stopAgentMutation ev rid0 = None"
    by (simp add: stop_resolves_def)
  have step: "fold controller_step (stop_events ev s) rs
                = controller_step (StopRun rid0 None) rs"
    using Some ok by (simp add: stop_events_def)
  have "\<forall>r'\<in>set (controller_step (StopRun rid0 None) rs).
          \<not> (conversation_id r' = threadId s \<and> active r')"
  proof (intro ballI notI)
    fix r'
    assume m: "r' \<in> set (controller_step (StopRun rid0 None) rs)"
      and a: "conversation_id r' = threadId s \<and> active r'"
    from m obtain r where r: "r \<in> set rs"
      and r': "r' = (if run_id r = rid0 \<and> active r then r\<lparr>status := RunStopped\<rparr> else r)"
      by auto
    show False
    proof (cases "run_id r = rid0 \<and> active r")
      case True
      with r' a show False by (simp add: active_def)
    next
      case False
      with r' have e: "r' = r" by simp
      with a r held have "currentAgentRunId s = Some (run_id r)" by blast
      moreover from Some have "currentAgentRunId s = Some rid0"
        by (simp add: run_to_stop_SomeD)
      ultimately have "run_id r = rid0" by simp
      with False a e show False by simp
    qed
  qed
  then show ?thesis
    unfolding step active_runs_def filter_empty_conv by blast
qed

text \<open>
  C1, as the code has it. After a successful handoff the run id of the hook is the id the
  start call returned and the selected agent is the target agent. If, before the call, at
  most one run of the conversation was active and every active run of the conversation was
  the non-empty run id held by the hook with status \<open>running\<close>, then at every instant of
  the handoff at most one run of the conversation is active, and at the end exactly the new
  run is, for the target agent.
\<close>

theorem successful_handoff_one_active_run:
  assumes ok: "handoff_succeeded ev s agentId msg"
  shows "\<exists>rid. startAgentMutation ev (threadId s)
                  (agentOptions agentId (currentModelSettings s)) = Inr rid
           \<and> currentAgentRunId (state (handleAgentCall ev s agentId msg)) = Some rid
           \<and> selectedAgentId (state (handleAgentCall ev s agentId msg)) = agentId
           \<and> (length (active_runs (threadId s) rs) \<le> 1
                \<and> (\<forall>r\<in>set rs. conversation_id r = threadId s \<and> active r \<longrightarrow>
                      currentAgentRunId s = Some (run_id r) \<and> run_id r \<noteq> []
                      \<and> currentAgentStatus s = ''running'')
                \<longrightarrow>
                (\<forall>tbl\<in>set (observed (calls (handleAgentCall ev s agentId msg)) rs).
                    length (active_runs (threadId s) tbl) \<le> 1)
                \<and> active_runs (threadId s)
                      (last (observed (calls (handleAgentCall ev s agentId msg)) rs))
                    = [\<lparr>run_id = rid, conversation_id = threadId s, run_agent = agentId,
                        status = RunStarting\<rparr>])"
proof -
  let ?t = "threadId s"
  let ?opts = "agentOptions agentId (currentModelSettings s)"
  let ?rs1 = "fold controller_step (stop_events ev s) rs"
  from ok obtain rid where t: "?t \<noteq> []" and sr: "stop_resolves ev s"
    and ar: "append_resolves ev s msg" and st: "startAgentMutation ev ?t ?opts = Inr rid"
    by (auto simp: handoff_succeeded_iff)
  let ?new = "\<lparr>run_id = rid, conversation_id = ?t, run_agent = agentId, status = RunStarting\<rparr>"
  have res: "handleAgentCall ev s agentId msg =
      \<lparr>state = (with_handoff_message ev s msg)
                 \<lparr>currentAgentRunId := Some rid, selectedAgentId := agentId,
                  isLoading := False, error := None\<rparr>,
       calls = stop_events ev s @ append_events ev s msg @ [StartRun ?t ?opts (Inr rid)],
       toasts = [ToastSuccess ''Successfully switched to agent'']\<rparr>"
    using t sr ar st by (simp add: handleAgentCall_reaches_start)
  have aid: "agent_id ?opts = agentId"
    by (simp add: agentOptions_def split: option.split)
  have tables: "set (observed (calls (handleAgentCall ev s agentId msg)) rs)
                  = {rs, ?rs1, ?rs1 @ [?new]}"
    by (auto simp: res observed_append observed_stop_events observed_append_events aid)
  have final: "last (observed (calls (handleAgentCall ev s agentId msg)) rs) = ?rs1 @ [?new]"
    by (simp add: res last_observed observed_append_events aid)
  have 1: "currentAgentRunId (state (handleAgentCall ev s agentId msg)) = Some rid"
    and 2: "selectedAgentId (state (handleAgentCall ev s agentId msg)) = agentId"
    by (simp_all add: res)
  have 3: "(\<forall>tbl\<in>set (observed (calls (handleAgentCall ev s agentId msg)) rs).
               length (active_runs ?t tbl) \<le> 1)
           \<and> active_runs ?t (last (observed (calls (handleAgentCall ev s agentId msg)) rs))
               = [?new]"
    if one: "length (active_runs ?t rs) \<le> 1"
      and held: "\<forall>r\<in>set rs. conversation_id r = ?t \<and> active r \<longrightarrow>
                   currentAgentRunId s = Some (run_id r) \<and> run_id r \<noteq> []
                   \<and> currentAgentStatus s = ''running''"
  proof -
    have none: "active_runs ?t ?rs1 = []"
      using sr held by (rule no_active_run_after_stop_step)
    show ?thesis
      unfolding tables final using one none by (simp add: active_runs_snoc)
  qed
  from st 1 2 3 show ?thesis by blast
qed

theorem successful_handoff_one_active_run_witness:
  "handoff_succeeded env_ok s_running ''artist'' (Some ''please draw this'')
   \<and> length (active_runs (threadId s_running) runs_R1) \<le> 1
   \<and> currentAgentRunId
        (state (handleAgentCall env_ok s_running ''artist'' (Some ''please draw this'')))
       = Some ''R2''
   \<and> selectedAgentId
        (state (handleAgentCall env_ok s_running ''artist'' (Some ''please draw this'')))
       = ''artist''
   \<and> active_runs ''T1''
        (last (observed
                 (calls (handleAgentCall env_ok s_running ''artist''
                           (Some ''please draw this'')))
                 runs_R1))
       = [\<lparr>run_id = ''R2'', conversation_id = ''T1'', run_agent = ''artist'',
           status = RunStarting\<rparr>]"
proof -
  have ok: "handoff_succeeded env_ok s_running ''artist'' (Some ''please draw this'')"
    by (simp add: scenario_defs step_defs handoff_succeeded_def)
  have one: "length (active_runs (threadId s_running) runs_R1) \<le> 1"
    by (simp add: runs_R1_def active_runs_def)
  have held: "\<forall>r\<in>set runs_R1. conversation_id r = threadId s_running \<and> active r \<longrightarrow>
         currentAgentRunId s_running = Some (run_id r) \<and> run_id r \<noteq> []
         \<and> currentAgentStatus s_running = ''running''"
    by (simp add: runs_R1_def s_running_def)
  have st: "startAgentMutation env_ok (threadId s_running)
              (agentOptions ''artist'' (currentModelSettings s_running)) = Inr ''R2''"
    by (simp add: env_ok_def)
  have t: "threadId s_running = ''T1''"
    by (simp add: s_running_def)
  from successful_handoff_one_active_run [OF ok, of runs_R1] st t ok one held
  show ?thesis by auto
qed

text \<open>
  C1 as stated fails in its last part: run \<open>R1\<close> is active while the hook holds it with
  status \<open>connecting\<close>; the handoff to \<open>artist\<close> succeeds without a stop call, and
  afterwards the runs \<open>R1\<close> and \<open>R2\<close> of the conversation are both active.
\<close>

theorem handoff_while_connecting_two_active_runs:
  "handoff_succeeded env_ok s_connecting ''artist'' None
   \<and> length (active_runs ''T1'' runs_R1) = 1
   \<and> currentAgentRunId (state (handleAgentCall env_ok s_connecting ''artist'' None))
       = Some ''R2''
   \<and> active_runs ''T1''
        (last (observed (calls (handleAgentCall env_ok s_connecting ''artist'' None)) runs_R1))
       = [\<lparr>run_id = ''R1'', conversation_id = ''T1'', run_agent = ''writer'',
           status = RunRunning\<rparr>,
          \<lparr>run_id = ''R2'', conversation_id = ''T1'', run_agent = ''artist'',
           status = RunStarting\<rparr>]"
  by (simp add: scenario_defs s_connecting_def runs_R1_def step_defs handoff_succeeded_def
      active_runs_def active_def)

end
